theory Spec2Isabelle
  imports Complex_Main "HOL-Library.Char_ord" "HOL-Library.List_Lexorder" "HOL-Library.Sublist"
    "HOL-Library.Log_Nat" "HOL-Library.Multiset"
begin

section \<open>The salary dashboard: data model\<close>

text \<open>
  The dashboard script \<^verbatim>\<open>project.py\<close> reads a table of salary observations into the
  data frame \<^verbatim>\<open>df\<close>. One row of the frame is a record with the columns the script
  reads; the field names are the column names of the source. The frame itself is the list
  of its rows in file order. Category columns hold strings, \<^verbatim>\<open>ano\<close> and \<^verbatim>\<open>usd\<close>
  hold whole numbers, and no cell is missing. Strings are ordered as Python orders them:
  lexicographically by character code, a proper prefix before its extensions.
\<close>

record row =
  ano :: int
  senioridade :: string
  contrato :: string
  tamanho_empresa :: string
  cargo :: string
  usd :: int
  remoto :: string
  residencia_iso3 :: string

type_synonym frame = "row list"

text \<open>
  The four sidebar widgets return the lists \<^verbatim>\<open>selected_years\<close>,
  \<^verbatim>\<open>selected_seniorities\<close>, \<^verbatim>\<open>selected_contract_types\<close> and
  \<^verbatim>\<open>selected_company_sizes\<close>.
\<close>

record selection =
  selected_years :: "int list"
  selected_seniorities :: "string list"
  selected_contract_types :: "string list"
  selected_company_sizes :: "string list"

section \<open>Sidebar options\<close>

text \<open>
  \<^verbatim>\<open>Series.unique()\<close> lists the distinct values of a column in order of first
  appearance; \<^verbatim>\<open>sorted(...)\<close> then orders them ascending.
\<close>

definition unique :: "'a list \<Rightarrow> 'a list" where
  "unique xs = rev (remdups (rev xs))"

definition available_years :: "frame \<Rightarrow> int list" where
  "available_years df = sort (unique (map ano df))"

definition available_seniorities :: "frame \<Rightarrow> string list" where
  "available_seniorities df = sort (unique (map senioridade df))"

definition available_contract_types :: "frame \<Rightarrow> string list" where
  "available_contract_types df = sort (unique (map contrato df))"

definition available_company_sizes :: "frame \<Rightarrow> string list" where
  "available_company_sizes df = sort (unique (map tamanho_empresa df))"

text \<open>The selection the widgets hold before the user touches them: every option.\<close>

definition default_selection :: "frame \<Rightarrow> selection" where
  "default_selection df =
     \<lparr> selected_years = available_years df,
       selected_seniorities = available_seniorities df,
       selected_contract_types = available_contract_types df,
       selected_company_sizes = available_company_sizes df \<rparr>"

section \<open>Filtering\<close>

text \<open>
  \<^verbatim>\<open>Series.isin(values)\<close> is the row-wise membership test; the four masks are
  combined with \<^verbatim>\<open>&\<close> and the frame is indexed with the resulting mask, which keeps
  the rows whose mask entry is true, in frame order.
\<close>

definition isin :: "'a \<Rightarrow> 'a list \<Rightarrow> bool" where
  "isin v vs = (v \<in> set vs)"

definition row_mask :: "selection \<Rightarrow> row \<Rightarrow> bool" where
  "row_mask s r =
     (isin (ano r) (selected_years s) \<and>
      isin (senioridade r) (selected_seniorities s) \<and>
      isin (contrato r) (selected_contract_types s) \<and>
      isin (tamanho_empresa r) (selected_company_sizes s))"

definition filtered_df :: "frame \<Rightarrow> selection \<Rightarrow> frame" where
  "filtered_df df s = filter (row_mask s) df"

section \<open>Binary floating point\<close>

text \<open>
  pandas holds means, sums and row counts as binary64 numbers. A finite binary64 value is a
  rational, so the model computes in \<open>rat\<close> and rounds where the machine rounds:
  \<open>fl64\<close> sends a rational to the nearest value with a 53-bit significand, a tie to the
  one whose significand is even. \<open>binade x\<close> is the exponent \<open>e\<close> with
  \<open>2 ^ e \<le> x < 2 ^ (e + 1)\<close>; below \<open>2 ^ (- 1022)\<close> the grid stops getting finer.
  Overflow to infinity is not modelled: the salary column holds 64-bit integers, whose sums
  and quotients stay far below \<open>2 ^ 1024\<close>.
\<close>

definition rne :: "rat \<Rightarrow> int" where
  "rne x =
     (let f = \<lfloor>x\<rfloor>; r = x - of_int f
      in if r < 1 / 2 then f else if 1 / 2 < r then f + 1 else if even f then f else f + 1)"

definition binade :: "rat \<Rightarrow> int" where
  "binade x = (if 1 \<le> x then bitlen \<lfloor>x\<rfloor> - 1 else - bitlen (\<lceil>1 / x\<rceil> - 1))"

definition ulp :: "rat \<Rightarrow> rat" where
  "ulp x = 2 powi (max (binade x) (- 1022) - 52)"

definition fl64 :: "rat \<Rightarrow> rat" where
  "fl64 x = (if x = 0 then 0 else sgn x * of_int (rne (\<bar>x\<bar> / ulp \<bar>x\<bar>)) * ulp \<bar>x\<bar>)"

section \<open>KPI metrics\<close>

text \<open>
  The four variables the KPI block assigns. \<^verbatim>\<open>Series.mean()\<close> converts the entries
  of the integer column to binary64, adds them in binary64 and divides the sum by the row
  count, itself a binary64 number. The order in which the library groups the additions is
  its own; the model adds from left to right, and \<open>grouped_sum\<close> describes every
  grouping. \<^verbatim>\<open>Series.max()\<close> is the largest entry, an integer. Both are only
  evaluated under the guard \<^verbatim>\<open>not filtered_df.empty\<close>, on a column with at least one
  entry.
\<close>

record metrics =
  average_salary :: rat
  maximum_salary :: int
  total_records :: nat
  most_frequent_role :: string

definition series_sum :: "int list \<Rightarrow> rat" where
  "series_sum xs = fold (\<lambda>x acc. fl64 (acc + fl64 (of_int x))) xs 0"

definition series_mean :: "int list \<Rightarrow> rat" where
  "series_mean xs = fl64 (series_sum xs / fl64 (of_nat (length xs)))"

inductive grouped_sum :: "int list \<Rightarrow> rat \<Rightarrow> bool" where
  single: "grouped_sum [x] (fl64 (of_int x))"
| join: "grouped_sum xs a \<Longrightarrow> grouped_sum ys b \<Longrightarrow> mset zs = mset xs + mset ys
         \<Longrightarrow> grouped_sum zs (fl64 (a + b))"

definition series_max :: "int list \<Rightarrow> int" where
  "series_max xs = fold max (tl xs) (hd xs)"

text \<open>
  \<^verbatim>\<open>Series.mode()\<close> returns every value whose number of occurrences is the largest,
  in sorted order. Indexing the result with \<^verbatim>\<open>[0]\<close> raises \<^verbatim>\<open>KeyError\<close> when
  there is no such value.
\<close>

datatype py_error = KeyError

definition series_mode :: "'a::linorder list \<Rightarrow> 'a list" where
  "series_mode xs =
     (let vs = unique xs;
          top = fold max (map (count_list xs) vs) 0
      in sort (filter (\<lambda>v. count_list xs v = top) vs))"

definition summarize :: "frame \<Rightarrow> py_error + metrics" where
  "summarize view =
     (if view \<noteq> [] then
        (case series_mode (map cargo view) of
           [] \<Rightarrow> Inl KeyError
         | m # _ \<Rightarrow> Inr \<lparr> average_salary = series_mean (map usd view),
                        maximum_salary = series_max (map usd view),
                        total_records = length view,
                        most_frequent_role = m \<rparr>)
      else Inr \<lparr> average_salary = 0, maximum_salary = 0, total_records = 0,
                 most_frequent_role = '''' \<rparr>)"

section \<open>Charts\<close>

subsection \<open>Top roles by average salary\<close>











subsection \<open>Salary distribution\<close>

text \<open>
  \<^verbatim>\<open>px.histogram(filtered_df, x='usd', nbins=30, ...)\<close> builds a figure that carries the
  salary column and the bin setting; the bins themselves are computed by the charting
  library when the figure is drawn. With an empty view the script builds no figure and
  shows a warning instead.
\<close>

record histogram_figure =
  fig_x :: "int list"
  fig_nbins :: nat

definition salary_histogram :: "frame \<Rightarrow> string + histogram_figure" where
  "salary_histogram view =
     (if view \<noteq> [] then Inr \<lparr> fig_x = map usd view, fig_nbins = 30 \<rparr>
      else Inl ''No data available to display the salary distribution chart.'')"

section \<open>The specification's rules\<close>

text \<open>
  The specification breaks ties by first encounter. Its mode is the first value, scanning
  the column in order, whose number of occurrences is the largest.
\<close>

definition first_encountered_mode :: "'a list \<Rightarrow> 'a option" where
  "first_encountered_mode xs =
     (let top = fold max (map (count_list xs) xs) 0
      in find (\<lambda>v. count_list xs v = top) xs)"



section \<open>Sample rows\<close>

text \<open>The two records of the specification's example scenario, and two selections.\<close>

definition row_ds :: row where
  "row_ds = \<lparr> ano = 2023, senioridade = ''Senior'', contrato = ''CLT'',
     tamanho_empresa = ''Large'', cargo = ''Data Scientist'', usd = 120000,
     remoto = ''Remote'', residencia_iso3 = ''USA'' \<rparr>"

definition row_da :: row where
  "row_da = \<lparr> ano = 2023, senioridade = ''Junior'', contrato = ''CLT'',
     tamanho_empresa = ''Small'', cargo = ''Data Analyst'', usd = 60000,
     remoto = ''On-site'', residencia_iso3 = ''BRA'' \<rparr>"


definition sel_senior :: selection where
  "sel_senior = \<lparr> selected_years = [2023], selected_seniorities = [''Senior''],
     selected_contract_types = [''CLT''], selected_company_sizes = [''Large'', ''Small''] \<rparr>"

definition sel_both :: selection where
  "sel_both = \<lparr> selected_years = [2023], selected_seniorities = [''Junior'', ''Senior''],
     selected_contract_types = [''CLT''], selected_company_sizes = [''Large'', ''Small''] \<rparr>"




section \<open>Properties of the filter\<close>

lemma set_unique: "set (unique xs) = set xs"
  by (simp add: unique_def)


lemma rows_differ: "row_ds \<noteq> row_da"
  by (simp add: row_ds_def row_da_def)

lemma mask_senior_ds: "row_mask sel_senior row_ds"
  by (simp add: row_mask_def isin_def sel_senior_def row_ds_def)

lemma mask_senior_da: "\<not> row_mask sel_senior row_da"
  by (simp add: row_mask_def isin_def sel_senior_def row_da_def)

lemma filtered_senior: "filtered_df [row_ds, row_da] sel_senior = [row_ds]"
  by (simp add: filtered_df_def mask_senior_ds mask_senior_da)

text \<open>
  C1. Soundness and completeness of the filter: every row of the view has its year,
  seniority, contract type and company size in the corresponding selected list, and every
  row of the frame that is not in the view fails at least one of the four membership
  tests.
\<close>

theorem filter_sound_complete:
  "(\<forall>r \<in> set (filtered_df df s).
      ano r \<in> set (selected_years s) \<and>
      senioridade r \<in> set (selected_seniorities s) \<and>
      contrato r \<in> set (selected_contract_types s) \<and>
      tamanho_empresa r \<in> set (selected_company_sizes s)) \<and>
   (\<forall>r \<in> set df. r \<notin> set (filtered_df df s) \<longrightarrow>
      \<not> (ano r \<in> set (selected_years s) \<and>
         senioridade r \<in> set (selected_seniorities s) \<and>
         contrato r \<in> set (selected_contract_types s) \<and>
         tamanho_empresa r \<in> set (selected_company_sizes s)))"
  by (simp add: filtered_df_def row_mask_def isin_def)

theorem filter_sound_complete_witness:
  "row_ds \<in> set (filtered_df [row_ds, row_da] sel_senior) \<and>
   senioridade row_ds \<in> set (selected_seniorities sel_senior) \<and>
   row_da \<in> set [row_ds, row_da] \<and>
   row_da \<notin> set (filtered_df [row_ds, row_da] sel_senior) \<and>
   senioridade row_da \<notin> set (selected_seniorities sel_senior)"
proof -
  have sen: "senioridade row_ds = ''Senior''" "senioridade row_da = ''Junior''"
    "selected_seniorities sel_senior = [''Senior'']"
    by (simp_all add: row_ds_def row_da_def sel_senior_def)
  have neq: "row_da \<noteq> row_ds"
    using rows_differ by simp
  show ?thesis
    using filter_sound_complete [of "[row_ds, row_da]" sel_senior]
    by (simp add: filtered_senior neq sen)
qed

text \<open>
  C2. Identity of the full selection: when each of the four lists holds exactly the
  distinct values present in its column of the frame, the view is the whole frame. The
  default of the sidebar widgets, \<open>default_selection\<close>, is such a selection.
\<close>

theorem filter_full_selection_identity:
  assumes "set (selected_years s) = set (map ano df)"
    and "set (selected_seniorities s) = set (map senioridade df)"
    and "set (selected_contract_types s) = set (map contrato df)"
    and "set (selected_company_sizes s) = set (map tamanho_empresa df)"
  shows "filtered_df df s = df"
proof -
  have "row_mask s r" if "r \<in> set df" for r
    using that assms by (simp add: row_mask_def isin_def)
  then show ?thesis
    by (simp add: filtered_df_def)
qed

theorem filter_full_selection_identity_witness:
  "set (selected_years (default_selection [row_ds, row_da])) = set (map ano [row_ds, row_da]) \<and>
   filtered_df [row_ds, row_da] (default_selection [row_ds, row_da]) = [row_ds, row_da]"
  using filter_full_selection_identity
    [of "default_selection [row_ds, row_da]" "[row_ds, row_da]"]
  by (simp add: default_selection_def available_years_def available_seniorities_def
      available_contract_types_def available_company_sizes_def set_unique)

text \<open>
  C7. An empty list for any one dimension selects nothing: the view is empty.
\<close>

theorem filter_empty_dimension:
  "selected_years s = [] \<or> selected_seniorities s = [] \<or>
   selected_contract_types s = [] \<or> selected_company_sizes s = []
   \<Longrightarrow> filtered_df df s = []"
  by (auto simp: filtered_df_def row_mask_def isin_def filter_empty_conv)

theorem filter_empty_dimension_witness:
  "selected_seniorities (sel_senior\<lparr>selected_seniorities := []\<rparr>) = [] \<and>
   filtered_df [row_ds, row_da] (sel_senior\<lparr>selected_seniorities := []\<rparr>) = []"
  using filter_empty_dimension
    [of "sel_senior\<lparr>selected_seniorities := []\<rparr>" "[row_ds, row_da]"]
  by simp

text \<open>
  C8. Idempotence: filtering the view again with the same selection returns the view
  unchanged.
\<close>

theorem filter_idempotent:
  "filtered_df (filtered_df df s) s = filtered_df df s"
  by (simp add: filtered_df_def)

theorem filter_idempotent_witness:
  "filtered_df (filtered_df [row_ds, row_da] sel_senior) sel_senior = [row_ds]"
  using filter_idempotent [of "[row_ds, row_da]" sel_senior]
  by (simp add: filtered_senior)

text \<open>
  C9. Monotonicity in the selection: if each list of \<open>s1\<close> is contained in the
  corresponding list of \<open>s2\<close>, the view under \<open>s1\<close> is a subsequence of the view under
  \<open>s2\<close>, and both are subsequences of the frame, so both keep the frame's row order.
\<close>

theorem filter_monotone:
  assumes "set (selected_years s1) \<subseteq> set (selected_years s2)"
    and "set (selected_seniorities s1) \<subseteq> set (selected_seniorities s2)"
    and "set (selected_contract_types s1) \<subseteq> set (selected_contract_types s2)"
    and "set (selected_company_sizes s1) \<subseteq> set (selected_company_sizes s2)"
  shows "subseq (filtered_df df s1) (filtered_df df s2) \<and>
         subseq (filtered_df df s1) df \<and> subseq (filtered_df df s2) df"
proof -
  have imp: "row_mask s1 r \<Longrightarrow> row_mask s2 r" for r
    using assms by (auto simp: row_mask_def isin_def)
  have "filtered_df df s1 = filter (row_mask s1) (filtered_df df s2)"
    using imp by (auto simp: filtered_df_def intro: filter_cong)
  then have "subseq (filtered_df df s1) (filtered_df df s2)"
    by simp
  then show ?thesis
    by (simp add: filtered_df_def)
qed

theorem filter_monotone_witness:
  "set (selected_seniorities sel_senior) \<subseteq> set (selected_seniorities sel_both) \<and>
   subseq (filtered_df [row_ds, row_da] sel_senior) (filtered_df [row_ds, row_da] sel_both) \<and>
   filtered_df [row_ds, row_da] sel_senior = [row_ds]"
  using filter_monotone [of sel_senior sel_both "[row_ds, row_da]"]
  by (simp add: sel_senior_def sel_both_def filtered_senior [unfolded sel_senior_def])

section \<open>Properties of the KPI metrics\<close>

lemma fold_max_Max: "fold max ns (a::nat) = Max (set (a # ns))"
  by (simp only: Max.set_eq_fold)

lemma top_count:
  assumes "xs \<noteq> []"
  shows "fold max (map (count_list xs) (unique xs)) 0 = Max (count_list xs ` set xs)"
proof -
  have "fold max (map (count_list xs) (unique xs)) 0
      = Max (insert 0 (count_list xs ` set xs))"
    by (simp add: fold_max_Max set_unique)
  also have "\<dots> = Max (count_list xs ` set xs)"
    using assms by (simp add: max_def)
  finally show ?thesis .
qed

lemma series_mode_set:
  assumes "xs \<noteq> []"
  shows "set (series_mode xs) = {v \<in> set xs. count_list xs v = Max (count_list xs ` set xs)}"
  using assms by (auto simp: series_mode_def Let_def top_count set_unique)

lemma series_mode_sorted: "sorted (series_mode xs)"
  by (simp add: series_mode_def Let_def)

lemma series_mode_nonempty:
  assumes "xs \<noteq> []"
  shows "series_mode xs \<noteq> []"
proof -
  have "Max (count_list xs ` set xs) \<in> count_list xs ` set xs"
    using assms by (intro Max_in) auto
  then obtain v where "v \<in> set xs" "count_list xs v = Max (count_list xs ` set xs)"
    by auto
  then have "v \<in> set (series_mode xs)"
    using assms by (simp add: series_mode_set)
  then show ?thesis by auto
qed

text \<open>
  On a column with at least one entry the mode list has a head; the head occurs most often
  and is the least of the values that do.
\<close>

lemma series_mode_head:
  assumes "xs \<noteq> []"
  obtains m ms where "series_mode xs = m # ms"
    and "m \<in> set xs" and "count_list xs m = Max (count_list xs ` set xs)"
    and "\<And>v. v \<in> set xs \<Longrightarrow> count_list xs v = Max (count_list xs ` set xs) \<Longrightarrow> m \<le> v"
proof -
  obtain m ms where eq: "series_mode xs = m # ms"
    using series_mode_nonempty [OF assms] by (cases "series_mode xs") auto
  let ?top = "{v \<in> set xs. count_list xs v = Max (count_list xs ` set xs)}"
  have "m \<in> set (series_mode xs)"
    by (simp add: eq)
  then have mem: "m \<in> ?top"
    by (simp only: series_mode_set [OF assms])
  have "m \<le> v" if "v \<in> set (series_mode xs)" for v
    using series_mode_sorted [of xs] that by (auto simp: eq)
  then have low: "m \<le> v" if "v \<in> ?top" for v
    using that by (simp only: series_mode_set [OF assms])
  show ?thesis
  proof (rule that [of m ms])
    show "series_mode xs = m # ms" by (fact eq)
    show "m \<in> set xs" using mem by simp
    show "count_list xs m = Max (count_list xs ` set xs)" using mem by simp
    show "m \<le> v" if "v \<in> set xs" "count_list xs v = Max (count_list xs ` set xs)" for v
      using low [of v] that by simp
  qed
qed

section \<open>Properties of binary64 rounding\<close>

lemma rne_of_int [simp]: "rne (of_int k) = k"
  by (simp add: rne_def)

lemma rne_le: "x \<le> of_int k \<Longrightarrow> rne x \<le> k"
proof (cases "x = of_int k")
  case True
  then show ?thesis by simp
next
  case False
  assume "x \<le> of_int k"
  with False have "x < of_int k" by simp
  then have "\<lfloor>x\<rfloor> < k" by (simp add: floor_less_iff)
  then show ?thesis by (simp add: rne_def Let_def)
qed

lemma rne_ge: "of_int k \<le> x \<Longrightarrow> k \<le> rne x"
proof -
  assume "of_int k \<le> x"
  then have "k \<le> \<lfloor>x\<rfloor>" by (simp add: le_floor_iff)
  then show ?thesis by (simp add: rne_def Let_def)
qed

lemma binade_le_52:
  assumes "0 < x" and "x < 2 ^ 53"
  shows "binade x \<le> 52"
proof (cases "1 \<le> x")
  case True
  have "\<lfloor>x\<rfloor> < 2 ^ 53"
    using assms(2) by (simp add: floor_less_iff)
  then have "bitlen \<lfloor>x\<rfloor> \<le> 53"
    by (simp add: bitlen_le_iff_power)
  then show ?thesis
    using True by (simp add: binade_def)
next
  case False
  have "0 \<le> bitlen (\<lceil>1 / x\<rceil> - 1)"
    by (rule bitlen_nonneg)
  then show ?thesis
    using False by (simp add: binade_def)
qed


lemma ulp_pos: "0 < ulp x"
  by (simp add: ulp_def)

lemma fl64_pos: "0 < x \<Longrightarrow> fl64 x = of_int (rne (x / ulp x)) * ulp x"
  by (simp add: fl64_def)


text \<open>Below \<open>2 ^ 53\<close> the grid is at least as fine as the integers.\<close>

lemma ulp_small:
  assumes "0 < x" and "x < 2 ^ 53"
  obtains j :: nat where "ulp x = 1 / 2 ^ j"
proof -
  have "max (binade x) (- 1022) \<le> 52"
    using binade_le_52 [OF assms] by simp
  then obtain j :: nat where j: "max (binade x) (- 1022) - 52 = - int j"
    by (metis add.inverse_inverse diff_le_0_iff_le neg_0_le_iff_le zero_le_imp_eq_int)
  have "ulp x = 1 / 2 ^ j"
    by (simp add: ulp_def j power_int_minus field_simps)
  then show ?thesis by (rule that)
qed

lemma fl64_le_int:
  assumes "0 < x" and "x < 2 ^ 53" and "x \<le> of_int k"
  shows "fl64 x \<le> of_int k"
proof -
  obtain j :: nat where j: "ulp x = 1 / 2 ^ j"
    using ulp_small [OF assms(1,2)] .
  have "x / ulp x = x * 2 ^ j"
    by (simp add: j)
  also have "\<dots> \<le> of_int k * 2 ^ j"
    using assms(3) by simp
  finally have "x / ulp x \<le> of_int (k * 2 ^ j)"
    by simp
  then have "rne (x / ulp x) \<le> k * 2 ^ j"
    by (rule rne_le)
  then have "(of_int (rne (x / ulp x)) :: rat) \<le> of_int (k * 2 ^ j)"
    by (simp only: of_int_le_iff)
  then have "of_int (rne (x / ulp x)) * ulp x \<le> of_int (k * 2 ^ j) * ulp x"
    using ulp_pos [of x] by (simp only: mult_le_cancel_right) simp
  then show ?thesis
    by (simp add: fl64_pos [OF assms(1)] j)
qed

lemma fl64_ge_int:
  assumes "0 < x" and "x < 2 ^ 53" and "of_int k \<le> x"
  shows "of_int k \<le> fl64 x"
proof -
  obtain j :: nat where j: "ulp x = 1 / 2 ^ j"
    using ulp_small [OF assms(1,2)] .
  have "of_int k * 2 ^ j \<le> x * 2 ^ j"
    using assms(3) by simp
  also have "\<dots> = x / ulp x"
    by (simp add: j)
  finally have "of_int (k * 2 ^ j) \<le> x / ulp x"
    by simp
  then have "k * 2 ^ j \<le> rne (x / ulp x)"
    by (rule rne_ge)
  then have "(of_int (k * 2 ^ j) :: rat) \<le> of_int (rne (x / ulp x))"
    by (simp only: of_int_le_iff)
  then have "of_int (k * 2 ^ j) * ulp x \<le> of_int (rne (x / ulp x)) * ulp x"
    using ulp_pos [of x] by (simp only: mult_le_cancel_right) simp
  then show ?thesis
    by (simp add: fl64_pos [OF assms(1)] j)
qed

text \<open>A non-negative integer below \<open>2 ^ 53\<close> is a binary64 value.\<close>

lemma fl64_of_int:
  assumes "0 \<le> k" and "k < 2 ^ 53"
  shows "fl64 (of_int k) = of_int k"
proof (cases "k = 0")
  case True
  then show ?thesis by (simp add: fl64_def)
next
  case False
  with assms(1) have pos: "0 < (of_int k :: rat)" by simp
  have lt: "(of_int k :: rat) < 2 ^ 53"
    using assms(2) by (metis of_int_less_numeral_power_cancel_iff)
  show ?thesis
    using fl64_le_int [OF pos lt, of k] fl64_ge_int [OF pos lt, of k] by simp
qed


section \<open>Properties of the binary64 sum and mean\<close>

lemma fold_sum_exact:
  assumes "\<forall>x \<in> set xs. 0 \<le> x" and "0 \<le> a" and "a + sum_list xs < 2 ^ 53"
  shows "fold (\<lambda>x acc. fl64 (acc + fl64 (of_int x))) xs (of_int a) = of_int (a + sum_list xs)"
  using assms
proof (induction xs arbitrary: a)
  case Nil
  then show ?case by simp
next
  case (Cons x xs)
  have x0: "0 \<le> x" and rest: "\<forall>y \<in> set xs. 0 \<le> y"
    using Cons.prems(1) by simp_all
  have s0: "0 \<le> sum_list xs"
    using rest by (simp add: sum_list_nonneg)
  have "x < 2 ^ 53"
    using Cons.prems(2,3) s0 by simp
  then have fx: "fl64 (of_int x) = of_int x"
    using x0 by (rule fl64_of_int [rotated])
  have "a + x < 2 ^ 53"
    using Cons.prems(3) s0 by simp
  then have "fl64 (of_int (a + x)) = of_int (a + x)"
    using Cons.prems(2) x0 by (intro fl64_of_int) simp_all
  then have step: "fl64 (of_int a + fl64 (of_int x)) = of_int (a + x)"
    by (simp add: fx)
  have "fold (\<lambda>x acc. fl64 (acc + fl64 (of_int x))) xs (of_int (a + x))
      = of_int ((a + x) + sum_list xs)"
    using rest Cons.prems(2,3) x0 by (intro Cons.IH) (simp_all add: add.assoc)
  then show ?case
    by (simp add: step add.assoc)
qed

text \<open>
  When the entries are non-negative and their sum is below \<open>2 ^ 53\<close>, the binary64 sum is
  the exact sum, under the model's order of additions and under every other grouping.
\<close>

lemma series_sum_exact:
  assumes "\<forall>x \<in> set xs. 0 \<le> x" and "sum_list xs < 2 ^ 53"
  shows "series_sum xs = of_int (sum_list xs)"
  using fold_sum_exact [of xs 0] assms by (simp add: series_sum_def)

lemma grouped_sum_exact:
  assumes "grouped_sum xs s" and "\<forall>x \<in> set xs. 0 \<le> x" and "sum_list xs < 2 ^ 53"
  shows "s = of_int (sum_list xs)"
  using assms
proof (induction rule: grouped_sum.induct)
  case (single x)
  then show ?case by (simp add: fl64_of_int)
next
  case (join xs a ys b zs)
  have sets: "set zs = set xs \<union> set ys"
    using join.hyps(3) by (metis set_mset_mset set_mset_union)
  have sum: "sum_list zs = sum_list xs + sum_list ys"
    using join.hyps(3) by (metis sum_mset_sum_list sum_mset.union)
  have nx: "\<forall>x \<in> set xs. 0 \<le> x" and ny: "\<forall>y \<in> set ys. 0 \<le> y"
    using join.prems(1) sets by simp_all
  have sx: "0 \<le> sum_list xs" and sy: "0 \<le> sum_list ys"
    using nx ny by (simp_all add: sum_list_nonneg)
  have a: "a = of_int (sum_list xs)"
    using nx sx sy sum join.prems(2) by (intro join.IH(1)) simp_all
  have b: "b = of_int (sum_list ys)"
    using ny sx sy sum join.prems(2) by (intro join.IH(2)) simp_all
  have "fl64 (of_int (sum_list zs)) = of_int (sum_list zs)"
    using sx sy sum join.prems(2) by (intro fl64_of_int) simp_all
  then show ?case
    by (simp add: a b sum)
qed





text \<open>
  With fewer than \<open>2 ^ 53\<close> entries as well, the binary64 mean is the arithmetic mean,
  rounded once.
\<close>

lemma series_mean_rounded:
  assumes "\<forall>x \<in> set xs. 0 \<le> x" and "sum_list xs < 2 ^ 53" and "int (length xs) < 2 ^ 53"
  shows "series_mean xs = fl64 (of_int (sum_list xs) / of_nat (length xs))"
proof -
  have "fl64 (of_int (int (length xs))) = of_int (int (length xs))"
    using assms(3) by (intro fl64_of_int) simp_all
  then show ?thesis
    by (simp add: series_mean_def series_sum_exact [OF assms(1,2)])
qed

lemma mean_two: "series_mean [120000, 60000] = 90000"
proof -
  have "series_mean [120000, 60000] = fl64 (of_int 90000)"
    using series_mean_rounded [of "[120000, 60000]"] by simp
  also have "\<dots> = 90000"
    using fl64_of_int [of 90000] by simp
  finally show ?thesis .
qed


lemma summarize_two:
  "summarize [row_ds, row_da] =
     Inr \<lparr> average_salary = 90000, maximum_salary = 120000, total_records = 2,
           most_frequent_role = ''Data Analyst'' \<rparr>"
  by (simp add: summarize_def series_mode_def unique_def row_ds_def row_da_def
      mean_two series_max_def)


text \<open>
  C3. On the empty view the summary is returned, not an error, and it is exactly: mean 0,
  maximum 0, count 0, and the empty string as most frequent role.
\<close>

theorem summarize_empty:
  "summarize [] = Inr \<lparr> average_salary = 0, maximum_salary = 0, total_records = 0,
                        most_frequent_role = '''' \<rparr>"
  by (simp add: summarize_def)

theorem summarize_empty_witness:
  "map_sum id total_records (summarize []) = Inr 0 \<and>
   map_sum id most_frequent_role (summarize []) = Inr ''''"
  using summarize_empty by simp

text \<open>
  C4, as the code has it. On every non-empty view the summary is returned, and its most
  frequent role is a role of the view whose number of occurrences is the largest; among
  the roles tied for that number it is the least in string order (not the one encountered
  first). When a single role attains the largest number, it is that role.
\<close>

theorem summarize_mode_least:
  assumes "view \<noteq> []"
  shows "\<exists>m. summarize view = Inr m \<and>
           most_frequent_role m \<in> set (map cargo view) \<and>
           count_list (map cargo view) (most_frequent_role m)
             = Max (count_list (map cargo view) ` set (map cargo view)) \<and>
           (\<forall>r \<in> set (map cargo view).
              count_list (map cargo view) r = count_list (map cargo view) (most_frequent_role m)
              \<longrightarrow> most_frequent_role m \<le> r)"
proof -
  have ne: "map cargo view \<noteq> []"
    using assms by simp
  obtain m ms where eq: "series_mode (map cargo view) = m # ms"
    and mem: "m \<in> set (map cargo view)"
    and top: "count_list (map cargo view) m
        = Max (count_list (map cargo view) ` set (map cargo view))"
    and low: "\<And>v. v \<in> set (map cargo view) \<Longrightarrow>
        count_list (map cargo view) v = Max (count_list (map cargo view) ` set (map cargo view))
        \<Longrightarrow> m \<le> v"
    using series_mode_head [OF ne] by blast
  show ?thesis
    using assms eq mem top low by (simp add: summarize_def)
qed

theorem summarize_mode_least_witness:
  "[row_ds, row_da] \<noteq> [] \<and>
   (\<exists>m. summarize [row_ds, row_da] = Inr m \<and>
        most_frequent_role m \<in> set (map cargo [row_ds, row_da]) \<and>
        most_frequent_role m \<le> cargo row_ds \<and> most_frequent_role m \<le> cargo row_da)"
proof -
  have tie: "count_list (map cargo [row_ds, row_da]) r = 1"
    if "r \<in> set (map cargo [row_ds, row_da])" for r
    using that by (auto simp: row_ds_def row_da_def)
  obtain m where m: "summarize [row_ds, row_da] = Inr m"
    "most_frequent_role m \<in> set (map cargo [row_ds, row_da])"
    "\<forall>r \<in> set (map cargo [row_ds, row_da]).
        count_list (map cargo [row_ds, row_da]) r
          = count_list (map cargo [row_ds, row_da]) (most_frequent_role m)
        \<longrightarrow> most_frequent_role m \<le> r"
    using summarize_mode_least [of "[row_ds, row_da]"] by blast
  have "most_frequent_role m \<le> r" if "r \<in> set (map cargo [row_ds, row_da])" for r
  proof -
    have "count_list (map cargo [row_ds, row_da]) r
        = count_list (map cargo [row_ds, row_da]) (most_frequent_role m)"
      using tie [OF that] tie [OF m(2)] by (simp only:)
    then show ?thesis
      using m(3) that by blast
  qed
  then have "most_frequent_role m \<le> cargo row_ds" "most_frequent_role m \<le> cargo row_da"
    by simp_all
  then show ?thesis
    using m(1,2) by blast
qed

text \<open>
  C4, as the specification words it, fails. In the view of the two sample rows each role
  occurs once; the role encountered first is "Data Scientist", and the code reports
  "Data Analyst".
\<close>

theorem mode_first_encountered_counterexample:
  "map_sum id most_frequent_role (summarize [row_ds, row_da]) = Inr ''Data Analyst'' \<and>
   first_encountered_mode (map cargo [row_ds, row_da]) = Some ''Data Scientist''"
proof -
  have "first_encountered_mode (map cargo [row_ds, row_da]) = Some ''Data Scientist''"
    by (simp add: first_encountered_mode_def row_ds_def row_da_def)
  then show ?thesis
    by (simp only: summarize_two) simp
qed




section \<open>Properties of the charts\<close>























text \<open>
  The histogram block on the empty view: no figure, only the warning. What the bins of a
  non-empty view are is decided by the charting library when it draws the figure.
\<close>

lemma salary_histogram_empty_view:
  "salary_histogram [] = Inl ''No data available to display the salary distribution chart.''"
  by (simp add: salary_histogram_def)

end
